theory Spec2Isabelle
  imports Complex_Main
begin

section \<open>Configuration and files\<close>

text \<open>
  \<^verbatim>\<open>window.APP_CONFIG\<close> of \<^verbatim>\<open>config.js\<close>: the size ceiling in bytes, the MIME
  allow-list and the queue's maximum length.
\<close>

record app_config =
  maxFileSize :: nat
  allowedTypes :: "string list"
  maxFiles :: nat

definition APP_CONFIG :: app_config where
  "APP_CONFIG =
     \<lparr> maxFileSize = 10 * 1024 * 1024,
       allowedTypes = [''image/jpeg'', ''image/png'', ''image/gif'', ''image/webp''],
       maxFiles = 10 \<rparr>"

text \<open>
  A browser \<^verbatim>\<open>File\<close>: the fields the upload code reads (\<^verbatim>\<open>name\<close>, \<^verbatim>\<open>size\<close>,
  \<^verbatim>\<open>type\<close>). The size is a byte count, hence a natural number.
\<close>

record js_file =
  fname :: string
  fsize :: nat
  ftype :: string

text \<open>\<^verbatim>\<open>String.prototype.startsWith\<close>.\<close>

definition startsWith :: "string \<Rightarrow> string \<Rightarrow> bool" where
  "startsWith s p = (take (length p) s = p)"

section \<open>UploadManager: validation and the selection queue\<close>

text \<open>
  The five messages \<^verbatim>\<open>validateFile\<close> returns in \<^verbatim>\<open>{ valid: false, error: ... }\<close>:
  'Only image files are allowed', 'File type not supported',
  'File size exceeds ...MB limit', 'File is empty', 'Duplicate file'.
\<close>

datatype validation_error =
    OnlyImageFilesAllowed
  | FileTypeNotSupported
  | FileSizeExceedsLimit
  | FileIsEmpty
  | DuplicateFile

datatype validation = Valid | Invalid validation_error

text \<open>
  \<^verbatim>\<open>validateFile(file)\<close>, reading \<^verbatim>\<open>this.selectedFiles\<close> and the configuration.
  The checks are the source's \<^verbatim>\<open>if (...) return\<close> chain, in its order.
\<close>

definition validateFile :: "app_config \<Rightarrow> js_file list \<Rightarrow> js_file \<Rightarrow> validation" where
  "validateFile cfg selected f =
     (if \<not> startsWith (ftype f) ''image/'' then Invalid OnlyImageFilesAllowed
      else if ftype f \<notin> set (allowedTypes cfg) then Invalid FileTypeNotSupported
      else if fsize f > maxFileSize cfg then Invalid FileSizeExceedsLimit
      else if fsize f = 0 then Invalid FileIsEmpty
      else if list_ex (\<lambda>existingFile. fname existingFile = fname f \<and> fsize existingFile = fsize f)
                selected
        then Invalid DuplicateFile
      else Valid)"

text \<open>Toast notifications: the message templates of the source, with their arguments.\<close>

datatype toast_level = Info | Success | Warning | Error

datatype toast_message =
    SomeFilesRejected "(string \<times> validation_error) list"
      \<comment> \<open>'Some files were rejected:' and one line \<^verbatim>\<open>name: error\<close> per rejected file\<close>
  | MaximumFilesAllowed nat int
      \<comment> \<open>'Maximum M files allowed. Only first K files added.'\<close>
  | FileSelectionCleared
  | NoFilesSelected
  | UploadAlreadyInProgress
  | LocationRequiredForUploading
      \<comment> \<open>'Location access is required for uploading. Please enable location permissions and try again.'\<close>
  | LocationDeniedUploadsContinue
      \<comment> \<open>'Location access denied. Uploads will continue without location data.'\<close>
  | UploadCancelled
  | CancellingUpload
  | SuccessfullyUploaded nat
  | SomeUploadsFailed nat nat
  | AllUploadsFailed
  | UploadFailedToast string
  | SupabaseNotConfigured

type_synonym toast = "toast_message \<times> toast_level"

text \<open>
  \<^verbatim>\<open>Array.prototype.splice(start)\<close> with one argument removes everything from index
  \<^verbatim>\<open>start\<close> on; a negative \<^verbatim>\<open>start\<close> counts from the end and is clamped at 0.
  The value is the array that remains.
\<close>

definition splice_from :: "int \<Rightarrow> 'a list \<Rightarrow> 'a list" where
  "splice_from start xs =
     (if start < 0 then take (nat (max 0 (int (length xs) + start))) xs
      else take (nat start) xs)"

text \<open>
  The \<^verbatim>\<open>files.forEach\<close> loop of \<^verbatim>\<open>addFiles\<close>: every file is validated against the
  queue as it was when \<^verbatim>\<open>addFiles\<close> was called (the queue is extended only after the
  loop), and goes either to \<^verbatim>\<open>validFiles\<close> or, with its message, to \<^verbatim>\<open>errors\<close>.
\<close>

fun validate_each ::
  "app_config \<Rightarrow> js_file list \<Rightarrow> js_file list \<Rightarrow> js_file list \<times> (string \<times> validation_error) list" where
  "validate_each cfg selected [] = ([], [])"
| "validate_each cfg selected (f # fs) =
     (let (validFiles, errors) = validate_each cfg selected fs
      in case validateFile cfg selected f of
           Valid \<Rightarrow> (f # validFiles, errors)
         | Invalid e \<Rightarrow> (validFiles, (fname f, e) # errors))"

text \<open>
  \<^verbatim>\<open>addFiles(files)\<close>: the new queue and the toasts shown, in order.
\<close>

definition addFiles :: "app_config \<Rightarrow> js_file list \<Rightarrow> js_file list \<Rightarrow> js_file list \<times> toast list" where
  "addFiles cfg selected files =
     (let (validFiles, errors) = validate_each cfg selected files;
          rejected = (if errors \<noteq> [] then [(SomeFilesRejected errors, Warning)] else []);
          totalFiles = length selected + length validFiles
      in if totalFiles > maxFiles cfg
         then (let allowedCount = int (maxFiles cfg) - int (length selected)
               in (selected @ splice_from allowedCount validFiles,
                   rejected @ [(MaximumFilesAllowed (maxFiles cfg) allowedCount, Warning)]))
         else (selected @ validFiles, rejected))"

text \<open>
  The order of rejection reasons as the specification lists it: the first check of this
  list that matches gives the reason, and a file that matches none is accepted.
\<close>

definition spec_rejection_checks ::
  "app_config \<Rightarrow> js_file list \<Rightarrow> (validation_error \<times> (js_file \<Rightarrow> bool)) list" where
  "spec_rejection_checks cfg batch =
     [(OnlyImageFilesAllowed, \<lambda>f. \<not> startsWith (ftype f) ''image/''),
      (FileTypeNotSupported, \<lambda>f. ftype f \<notin> set (allowedTypes cfg)),
      (FileSizeExceedsLimit, \<lambda>f. maxFileSize cfg < fsize f),
      (FileIsEmpty, \<lambda>f. fsize f = 0),
      (DuplicateFile, \<lambda>f. \<exists>g \<in> set batch. fname g = fname f \<and> fsize g = fsize f)]"

definition spec_first_reason :: "app_config \<Rightarrow> js_file list \<Rightarrow> js_file \<Rightarrow> validation" where
  "spec_first_reason cfg batch f =
     (case find (\<lambda>c. snd c f) (spec_rejection_checks cfg batch) of
        None \<Rightarrow> Valid
      | Some c \<Rightarrow> Invalid (fst c))"

section \<open>GeolocationManager\<close>

text \<open>
  A fix as \<^verbatim>\<open>getCurrentLocation\<close> stores it. The source keeps the time of the fix as an
  ISO string of millisecond precision and compares it after parsing it back; here it is
  the number of milliseconds since the epoch.
\<close>

record location =
  latitude :: real
  longitude :: real
  accuracy :: real
  timestamp :: int

datatype permission_state = Prompt | Granted | Denied

text \<open>The codes of a \<^verbatim>\<open>GeolocationPositionError\<close>.\<close>

datatype position_error = PERMISSION_DENIED | POSITION_UNAVAILABLE | TIMEOUT

text \<open>What the device answers to \<^verbatim>\<open>navigator.geolocation.getCurrentPosition\<close>.\<close>

datatype device_reply =
    Position real real real  \<comment> \<open>latitude, longitude, accuracy\<close>
  | PositionError position_error

text \<open>
  The environment of one call into the manager: whether \<^verbatim>\<open>navigator.geolocation\<close>
  exists, the device's answer, the clock when the call starts and the clock when the
  success callback runs.
\<close>

record geo_env =
  geo_supported :: bool
  reply :: device_reply
  clock_now :: int
  clock_at_fix :: int

text \<open>
  The manager's fields. \<^verbatim>\<open>fixRequests\<close> is not a field of the source: it counts the
  calls of \<^verbatim>\<open>navigator.geolocation.getCurrentPosition\<close>, so that "no new fix is
  requested" can be stated.
\<close>

record GeolocationManager =
  currentLocation :: "location option"
  isLocationEnabled :: bool
  locationPermission :: permission_state
  fixRequests :: nat

definition handleLocationError ::
  "position_error \<Rightarrow> GeolocationManager \<Rightarrow> GeolocationManager \<times> toast list" where
  "handleLocationError e geo =
     (if e = PERMISSION_DENIED
      then (geo\<lparr>locationPermission := Denied, isLocationEnabled := False\<rparr>,
            [(LocationDeniedUploadsContinue, Warning)])
      else (geo\<lparr>isLocationEnabled := False\<rparr>, []))"

text \<open>
  \<^verbatim>\<open>getCurrentLocation()\<close>: \<^verbatim>\<open>Inr None\<close> is the \<^verbatim>\<open>null\<close> returned without
  geolocation support, \<^verbatim>\<open>Inr (Some l)\<close> the resolved fix, \<^verbatim>\<open>Inl e\<close> the rejection.
\<close>

definition getCurrentLocation ::
  "GeolocationManager \<Rightarrow> geo_env
   \<Rightarrow> GeolocationManager \<times> toast list \<times> (position_error + location option)" where
  "getCurrentLocation geo env =
     (if \<not> geo_supported env then (geo\<lparr>isLocationEnabled := False\<rparr>, [], Inr None)
      else (let geo1 = geo\<lparr>fixRequests := fixRequests geo + 1\<rparr>
            in case reply env of
                 Position lat lng acc \<Rightarrow>
                   (let l = \<lparr>latitude = lat, longitude = lng, accuracy = acc,
                              timestamp = clock_at_fix env\<rparr>
                    in (geo1\<lparr>currentLocation := Some l, isLocationEnabled := True\<rparr>, [],
                        Inr (Some l)))
               | PositionError e \<Rightarrow>
                   (let (geo2, ts) = handleLocationError e geo1 in (geo2, ts, Inl e))))"

text \<open>
  \<^verbatim>\<open>getLocationForUpload()\<close>: a new fix is requested when there is no cached one or
  when the cached one is older than \<^verbatim>\<open>fiveMinutesAgo\<close>; a failed request is caught and
  gives \<^verbatim>\<open>null\<close>.
\<close>

definition getLocationForUpload ::
  "GeolocationManager \<Rightarrow> geo_env \<Rightarrow> GeolocationManager \<times> toast list \<times> location option" where
  "getLocationForUpload geo env =
     (if \<not> geo_supported env then (geo\<lparr>isLocationEnabled := False\<rparr>, [], None)
      else (let fiveMinutesAgo = clock_now env - 5 * 60 * 1000;
                stale = (case currentLocation geo of
                           None \<Rightarrow> True
                         | Some l \<Rightarrow> timestamp l < fiveMinutesAgo)
            in if stale
               then (case getCurrentLocation geo env of
                       (geo1, ts, Inl e) \<Rightarrow> (geo1, ts, None)
                     | (geo1, ts, Inr r) \<Rightarrow> (geo1, ts, currentLocation geo1))
               else (geo, [], currentLocation geo)))"

section \<open>SupabaseClient: storage, table and the upload sequence\<close>

text \<open>\<^verbatim>\<open>window.SUPABASE_CONFIG\<close>.\<close>

record supabase_config =
  url :: string
  bucketName :: string
  tableName :: string

definition SUPABASE_CONFIG :: supabase_config where
  "SUPABASE_CONFIG =
     \<lparr> url = ''https://dbhklkalmabfbeevkrak.supabase.co'',
       bucketName = ''images'',
       tableName = ''uploads'' \<rparr>"

text \<open>
  A row of the \<^verbatim>\<open>uploads\<close> table as \<^verbatim>\<open>completeUpload\<close> writes it: \<^verbatim>\<open>uploadData\<close> and
  the identifier the database assigns. \<^verbatim>\<open>row_location\<close> is the spread
  \<^verbatim>\<open>...locationData\<close> (latitude, longitude, location_accuracy, location_timestamp),
  \<^verbatim>\<open>None\<close> for the empty object.
\<close>

record upload_row =
  row_id :: string
  file_name :: string
  file_size :: nat
  file_type :: string
  file_url :: "string option"
  uploaded_at :: int
  row_location :: "location option"

text \<open>The errors \<^verbatim>\<open>completeUpload\<close> and its helpers throw.\<close>

datatype upload_error =
    UploadFailed string  \<comment> \<open>'Upload failed: ' and the cause\<close>
  | FailedToSaveMetadata string  \<comment> \<open>'Failed to save metadata: ' and the cause\<close>
  | LocationAccessRequired
      \<comment> \<open>'Location access is required for uploading. Please enable location permissions and try again.'\<close>
  | LocationServiceNotAvailable
      \<comment> \<open>'Location service is not available. Please enable location access.'\<close>
  | TypeError  \<comment> \<open>a property read on \<^verbatim>\<open>null\<close>\<close>

text \<open>What the POST to the analysis service does: \<^verbatim>\<open>fetch\<close> rejects, the body is not
  JSON, or a JSON body arrives whose \<^verbatim>\<open>success\<close> field is truthy or not.\<close>

datatype analysis_reply = FetchThrew | JsonThrew | AnalysisResult bool

text \<open>The three console lines of the analysis block.\<close>

datatype analysis_note = AnalysisTriggered | AnalysisReportedFailure | AnalysisTriggerFailed

text \<open>
  The environment of one \<^verbatim>\<open>completeUpload\<close> call: \<^verbatim>\<open>Date.now()\<close>, an error the storage
  service returns (if any), the geolocation environment, the timestamp computed for
  \<^verbatim>\<open>uploaded_at\<close>, an error the table insert returns (if any), the identifier the
  database assigns to the new row, the analysis service's behaviour, and whether the
  user clicks "cancel" while this upload is awaited.
\<close>

record upload_env =
  date_now :: nat
  storage_fault :: "string option"
  location_env :: geo_env
  uploaded_at_now :: int
  insert_fault :: "string option"
  assigned_id :: string
  analysis :: analysis_reply
  cancel_clicked :: bool

text \<open>
  The page and what it talks to: the Supabase client's connection flag, the global
  geolocation manager (absent until created), the storage bucket (object key to
  object), the \<^verbatim>\<open>uploads\<close> table, the toasts shown so far, the console notes of the
  analysis block, and the fields of the \<^verbatim>\<open>UploadManager\<close>. \<^verbatim>\<open>validatorCalls\<close> is not a
  field of the source: it counts the calls of \<^verbatim>\<open>validateFile\<close>, so that "the Validator
  is reached" can be stated.
\<close>

record window =
  isConnected :: bool
  geolocationManager :: "GeolocationManager option"
  storage :: "string \<rightharpoonup> js_file"
  uploads :: "upload_row list"
  toasts :: "toast list"
  console :: "analysis_note list"
  selectedFiles :: "js_file list"
  isUploading :: bool
  uploadAborted :: bool
  validatorCalls :: nat

definition showToast :: "toast list \<Rightarrow> window \<Rightarrow> window" where
  "showToast ts w = w\<lparr>toasts := toasts w @ ts\<rparr>"

text \<open>\<^verbatim>\<open>checkConnection()\<close>: the flag, with a toast when it is off.\<close>

definition checkConnection :: "window \<Rightarrow> window \<times> bool" where
  "checkConnection w =
     (if \<not> isConnected w then (showToast [(SupabaseNotConfigured, Error)] w, False)
      else (w, True))"

text \<open>Decimal digits of a number, as a template literal renders \<^verbatim>\<open>Date.now()\<close>.\<close>

fun digits_of :: "nat \<Rightarrow> string" where
  "digits_of n =
     (if n < 10 then [''0123456789'' ! n]
      else digits_of (n div 10) @ [''0123456789'' ! (n mod 10)])"

declare digits_of.simps [simp del]

text \<open>
  \<^verbatim>\<open>uploadFile(file, fileName)\<close>. The storage service is asked with \<^verbatim>\<open>upsert: false\<close>:
  it refuses a key that exists and otherwise stores the object under the key and
  answers with its path. Every failure is rethrown as 'Upload failed: ...'.
\<close>

definition uploadFile ::
  "window \<Rightarrow> upload_env \<Rightarrow> js_file \<Rightarrow> string \<Rightarrow> window \<times> (upload_error + string option)" where
  "uploadFile w env f fileName =
     (case checkConnection w of
        (w1, False) \<Rightarrow> (w1, Inr None)
      | (w1, True) \<Rightarrow>
          if fsize f = 0 then (w1, Inl (UploadFailed ''File is empty or invalid''))
          else if ftype f = [] \<or> \<not> startsWith (ftype f) ''image/''
            then (w1, Inl (UploadFailed ''File is not a valid image''))
          else (case storage_fault env of
                  Some msg \<Rightarrow> (w1, Inl (UploadFailed msg))
                | None \<Rightarrow>
                    if fileName \<in> dom (storage w1)
                    then (w1, Inl (UploadFailed ''The resource already exists''))
                    else (w1\<lparr>storage := (storage w1)(fileName \<mapsto> f)\<rparr>, Inr (Some fileName))))"

text \<open>
  \<^verbatim>\<open>encodeURI\<close>. A string is the list of the bytes of its UTF-8 form, so the function
  works byte by byte: letters, digits and the characters
  \<^verbatim>\<open>; , / ? : @ & = + $ - _ . ! ~ * ' ( ) #\<close> stay, and every other byte becomes \<^verbatim>\<open>%XX\<close>
  with upper-case hexadecimal digits. (The \<^verbatim>\<open>URIError\<close> of a lone surrogate has no
  counterpart: such a string has no UTF-8 form.)
\<close>

definition uriUnescaped :: "char \<Rightarrow> bool" where
  "uriUnescaped c =
     (c \<in> set (''ABCDEFGHIJKLMNOPQRSTUVWXYZabcdefghijklmnopqrstuvwxyz0123456789''
                @ '';,/?:@&=+$-_.!~*()#'')
      \<or> c = CHR 0x27)"

definition percentEncode :: "char \<Rightarrow> string" where
  "percentEncode c =
     [CHR ''%'', ''0123456789ABCDEF'' ! (of_char c div 16),
      ''0123456789ABCDEF'' ! (of_char c mod 16)]"

definition encodeURI :: "string \<Rightarrow> string" where
  "encodeURI s = concat (map (\<lambda>c. if uriUnescaped c then [c] else percentEncode c) s)"

text \<open>
  \<^verbatim>\<open>getPublicUrl(fileName)\<close>: the SDK builds the URL without a request, as
  \<^verbatim>\<open>encodeURI\<close> of the project's storage URL, \<^verbatim>\<open>/object/public/\<close>, the bucket and the
  key.
\<close>

definition getPublicUrl :: "window \<Rightarrow> string \<Rightarrow> window \<times> string option" where
  "getPublicUrl w fileName =
     (case checkConnection w of
        (w1, False) \<Rightarrow> (w1, None)
      | (w1, True) \<Rightarrow>
          (w1, Some (encodeURI (url SUPABASE_CONFIG @ ''/storage/v1/object/public/''
                                @ bucketName SUPABASE_CONFIG @ ''/'' @ fileName))))"

text \<open>
  \<^verbatim>\<open>saveUploadMetadata(uploadData)\<close>: the insert either fails with the service's error,
  rethrown as 'Failed to save metadata: ...', or appends the row under the identifier
  the database assigns and returns it (\<^verbatim>\<open>data[0]\<close>).
\<close>

definition saveUploadMetadata ::
  "window \<Rightarrow> upload_env \<Rightarrow> upload_row \<Rightarrow> window \<times> (upload_error + upload_row option)" where
  "saveUploadMetadata w env uploadData =
     (case checkConnection w of
        (w1, False) \<Rightarrow> (w1, Inr None)
      | (w1, True) \<Rightarrow>
          (case insert_fault env of
             Some msg \<Rightarrow> (w1, Inl (FailedToSaveMetadata msg))
           | None \<Rightarrow>
               (let row = uploadData\<lparr>row_id := assigned_id env\<rparr>
                in (w1\<lparr>uploads := uploads w1 @ [row]\<rparr>, Inr (Some row)))))"

text \<open>
  The analysis block of \<^verbatim>\<open>completeUpload\<close>: it runs only for a saved row with a truthy
  \<^verbatim>\<open>id\<close>; whatever \<^verbatim>\<open>fetch\<close> or \<^verbatim>\<open>response.json()\<close> throws is caught there, and each
  outcome writes one console line.
\<close>

definition triggerAnalysis :: "upload_row option \<Rightarrow> analysis_reply \<Rightarrow> window \<Rightarrow> window" where
  "triggerAnalysis metadata r w =
     (case metadata of
        None \<Rightarrow> w
      | Some row \<Rightarrow>
          if row_id row = [] then w
          else (case r of
                  AnalysisResult True \<Rightarrow> w\<lparr>console := console w @ [AnalysisTriggered]\<rparr>
                | AnalysisResult False \<Rightarrow> w\<lparr>console := console w @ [AnalysisReportedFailure]\<rparr>
                | FetchThrew \<Rightarrow> w\<lparr>console := console w @ [AnalysisTriggerFailed]\<rparr>
                | JsonThrew \<Rightarrow> w\<lparr>console := console w @ [AnalysisTriggerFailed]\<rparr>))"

text \<open>The "unique filename" of \<^verbatim>\<open>completeUpload\<close>: the template
  \<^verbatim>\<open>${timestamp}_${file.name}\<close>.\<close>

definition uniqueFileName :: "nat \<Rightarrow> js_file \<Rightarrow> string" where
  "uniqueFileName t f = digits_of t @ ''_'' @ fname f"

text \<open>What \<^verbatim>\<open>completeUpload\<close> returns: the saved row spread into an object with the
  storage path and the public URL.\<close>

record upload_result =
  metadata :: "upload_row option"
  storage_path :: string
  public_url :: "string option"

text \<open>
  \<^verbatim>\<open>completeUpload(file, progressCallback)\<close>: storage upload, public URL, location
  (mandatory), metadata insert, analysis trigger. \<^verbatim>\<open>Inr None\<close> is the \<^verbatim>\<open>null\<close> of a
  missing connection, \<^verbatim>\<open>Inl e\<close> a thrown error (the outer \<^verbatim>\<open>catch\<close> rethrows it). The
  progress callback and the console logging do not touch the result or the state and
  are left out, except the read of \<^verbatim>\<open>uploadResult.path\<close> in the log after the metadata
  step, which throws on \<^verbatim>\<open>null\<close>.
\<close>

definition completeUpload ::
  "window \<Rightarrow> upload_env \<Rightarrow> js_file \<Rightarrow> window \<times> (upload_error + upload_result option)" where
  "completeUpload w env f =
     (case checkConnection w of
        (w0, False) \<Rightarrow> (w0, Inr None)
      | (w0, True) \<Rightarrow>
          (let fileName = uniqueFileName (date_now env) f
           in case uploadFile w0 env f fileName of
                (w1, Inl e) \<Rightarrow> (w1, Inl e)
              | (w1, Inr uploadResult) \<Rightarrow>
                  (let (w2, publicUrl) = getPublicUrl w1 fileName
                   in case geolocationManager w2 of
                        None \<Rightarrow> (w2, Inl LocationServiceNotAvailable)
                      | Some geo \<Rightarrow>
                          (let (geo1, ts, loc) = getLocationForUpload geo (location_env env);
                               w3 = showToast ts (w2\<lparr>geolocationManager := Some geo1\<rparr>)
                           in case loc of
                                None \<Rightarrow> (w3, Inl LocationAccessRequired)
                              | Some l \<Rightarrow>
                                  (let uploadData =
                                         \<lparr> row_id = [], file_name = fname f, file_size = fsize f,
                                           file_type = ftype f, file_url = publicUrl,
                                           uploaded_at = uploaded_at_now env,
                                           row_location = Some l \<rparr>
                                   in case saveUploadMetadata w3 env uploadData of
                                        (w4, Inl e) \<Rightarrow> (w4, Inl e)
                                      | (w4, Inr saved) \<Rightarrow>
                                          (case uploadResult of
                                             None \<Rightarrow> (w4, Inl TypeError)
                                           | Some path \<Rightarrow>
                                               (triggerAnalysis saved (analysis env) w4,
                                                Inr (Some \<lparr> metadata = saved,
                                                            storage_path = path,
                                                            public_url = publicUrl \<rparr>))))))))"

section \<open>UploadManager: starting an upload\<close>

text \<open>\<^verbatim>\<open>checkLocationPermission()\<close>: a fix is requested; no manager, \<^verbatim>\<open>null\<close> or a
  rejection all give \<^verbatim>\<open>false\<close>.\<close>

definition checkLocationPermission :: "window \<Rightarrow> geo_env \<Rightarrow> window \<times> bool" where
  "checkLocationPermission w genv =
     (case geolocationManager w of
        None \<Rightarrow> (w, False)
      | Some geo \<Rightarrow>
          (let (geo1, ts, r) = getCurrentLocation geo genv;
               w1 = showToast ts (w\<lparr>geolocationManager := Some geo1\<rparr>)
           in case r of
                Inr (Some l) \<Rightarrow> (w1, True)
              | Inr None \<Rightarrow> (w1, False)
              | Inl e \<Rightarrow> (w1, False)))"

text \<open>\<^verbatim>\<open>cancelUpload()\<close> clears the queue; \<^verbatim>\<open>cancelActiveUpload()\<close> raises the flag the
  upload loop reads between files.\<close>

definition cancelUpload :: "window \<Rightarrow> window" where
  "cancelUpload w = showToast [(FileSelectionCleared, Info)] (w\<lparr>selectedFiles := []\<rparr>)"

definition cancelActiveUpload :: "window \<Rightarrow> window" where
  "cancelActiveUpload w = showToast [(CancellingUpload, Info)] (w\<lparr>uploadAborted := True\<rparr>)"

text \<open>
  \<^verbatim>\<open>handleFileSelect(event)\<close> (and \<^verbatim>\<open>handleDrop\<close>): the files of the event go to
  \<^verbatim>\<open>this.addFiles\<close>, which calls \<^verbatim>\<open>validateFile\<close> once for each of them, replaces the
  queue and shows its toasts. Nothing here reads the geolocation manager.
\<close>

definition handleFileSelect :: "app_config \<Rightarrow> js_file list \<Rightarrow> window \<Rightarrow> window" where
  "handleFileSelect cfg files w =
     (case addFiles cfg (selectedFiles w) files of
        (queue, ts) \<Rightarrow>
          showToast ts (w\<lparr>selectedFiles := queue,
                         validatorCalls := validatorCalls w + length files\<rparr>))"

text \<open>
  The \<^verbatim>\<open>for\<close> loop of \<^verbatim>\<open>uploadFiles\<close> from index \<^verbatim>\<open>i\<close> on, over the files still to
  upload, with the lists \<^verbatim>\<open>successful\<close> and \<^verbatim>\<open>failed\<close>. Each file has its own
  environment; an error of \<^verbatim>\<open>completeUpload\<close> is caught and recorded.
\<close>

fun uploadFiles_loop ::
  "(nat \<Rightarrow> upload_env) \<Rightarrow> nat \<Rightarrow> js_file list \<Rightarrow> window
   \<Rightarrow> (string \<times> upload_result option) list \<Rightarrow> (string \<times> upload_error) list
   \<Rightarrow> window \<times> (string \<times> upload_result option) list \<times> (string \<times> upload_error) list" where
  "uploadFiles_loop envs i [] w successful failed = (w, successful, failed)"
| "uploadFiles_loop envs i (f # fs) w successful failed =
     (if uploadAborted w then (w, successful, failed)
      else (let (w1, r) = completeUpload w (envs i) f;
                w2 = (if cancel_clicked (envs i) then cancelActiveUpload w1 else w1)
            in case r of
                 Inr result \<Rightarrow>
                   uploadFiles_loop envs (i + 1) fs w2 (successful @ [(fname f, result)]) failed
               | Inl e \<Rightarrow>
                   uploadFiles_loop envs (i + 1) fs w2 successful (failed @ [(fname f, e)])))"

text \<open>\<^verbatim>\<open>uploadFiles()\<close>: the loop over the queue, then the summary toast; the queue is
  cleared only when nothing failed and the upload was not cancelled.\<close>

definition uploadFiles :: "window \<Rightarrow> (nat \<Rightarrow> upload_env) \<Rightarrow> window" where
  "uploadFiles w envs =
     (let (w1, successful, failed) = uploadFiles_loop envs 0 (selectedFiles w) w [] [];
          uploadedCount = length successful
      in if uploadAborted w1 then showToast [(UploadCancelled, Warning)] w1
         else if failed = []
           then cancelUpload (showToast [(SuccessfullyUploaded uploadedCount, Success)] w1)
         else if successful \<noteq> []
           then showToast [(SomeUploadsFailed uploadedCount (length failed), Warning)] w1
         else showToast [(AllUploadsFailed, Error)] w1)"

text \<open>
  \<^verbatim>\<open>startUpload()\<close>: nothing to upload, an upload in progress, or no location each end
  the call with one toast; otherwise the queue is uploaded and the in-progress flag is
  reset.
\<close>

definition startUpload :: "window \<Rightarrow> geo_env \<Rightarrow> (nat \<Rightarrow> upload_env) \<Rightarrow> window" where
  "startUpload w genv envs =
     (if selectedFiles w = [] then showToast [(NoFilesSelected, Warning)] w
      else if isUploading w then showToast [(UploadAlreadyInProgress, Warning)] w
      else (case checkLocationPermission w genv of
              (w1, False) \<Rightarrow> showToast [(LocationRequiredForUploading, Error)] w1
            | (w1, True) \<Rightarrow>
                (let w2 = w1\<lparr>isUploading := True, uploadAborted := False\<rparr>;
                     w3 = uploadFiles w2 envs
                 in w3\<lparr>isUploading := False\<rparr>)))"

section \<open>AnalysisManager: reading the analysis records\<close>

text \<open>
  The body of \<^verbatim>\<open>GET /analyses\<close> once parsed: the fields the client reads. \<^verbatim>\<open>success\<close>
  is the truthiness of the field; \<^verbatim>\<open>data\<close> and \<^verbatim>\<open>analyses\<close> are arrays of records, or
  \<^verbatim>\<open>None\<close> when the field is absent or \<^verbatim>\<open>null\<close>.
\<close>

record 'a envelope =
  success :: bool
  data :: "'a list option"
  analyses :: "'a list option"














section \<open>SensorTriggerManager: claiming a trigger\<close>

text \<open>A row of the \<^verbatim>\<open>sensor_data\<close> table; \<^verbatim>\<open>processed\<close> is the consumed flag.\<close>

record sensor_row =
  trigger_id :: string
  button :: string
  processed :: bool
  created_at :: int
  sensor_id :: "string option"

text \<open>
  The conditional update the client sends,
  \<^verbatim>\<open>update({processed: true}).eq('id', id).eq('processed', false).select()\<close>, as the
  database executes it in one step: the rows that match are updated, and the updated
  rows are returned.
\<close>

definition update_processed ::
  "sensor_row list \<Rightarrow> string \<Rightarrow> sensor_row list \<times> sensor_row list" where
  "update_processed tbl i =
     (map (\<lambda>r. if trigger_id r = i \<and> processed r = False then r\<lparr>processed := True\<rparr> else r) tbl,
      map (\<lambda>r. r\<lparr>processed := True\<rparr>)
        (filter (\<lambda>r. trigger_id r = i \<and> processed r = False) tbl))"

text \<open>How a request to the database ends for the client: it is served, it comes back
  with an \<^verbatim>\<open>error\<close>, or the call throws. A request that is not served changes nothing.\<close>

datatype request_outcome = Served | ErrorReturned | RequestThrew

text \<open>\<^verbatim>\<open>markTriggerAsProcessed(triggerId)\<close>: true only when the update returned a row.\<close>

definition markTriggerAsProcessed ::
  "sensor_row list \<Rightarrow> request_outcome \<Rightarrow> string \<Rightarrow> sensor_row list \<times> bool" where
  "markTriggerAsProcessed tbl outcome triggerId =
     (case outcome of
        RequestThrew \<Rightarrow> (tbl, False)
      | ErrorReturned \<Rightarrow> (tbl, False)
      | Served \<Rightarrow>
          (let (tbl1, updated) = update_processed tbl triggerId
           in if updated = [] then (tbl1, False) else (tbl1, True)))"

text \<open>An entry of the activity log: type, message, level.\<close>

type_synonym log_entry = "string \<times> string \<times> string"

text \<open>The manager's counters and its activity log (most recent first).\<close>

record SensorTriggerManager =
  totalTriggers :: nat
  todayTriggers :: nat
  successfulCaptures :: nat
  failedCaptures :: nat
  lastTriggerTime :: "int option"
  lastProcessedId :: "int option"
  activityLog :: "log_entry list"

text \<open>\<^verbatim>\<open>logActivity(type, message, level)\<close>: the entry goes on top and the log keeps its
  50 most recent entries.\<close>

definition logActivity ::
  "string \<Rightarrow> string \<Rightarrow> string \<Rightarrow> SensorTriggerManager \<Rightarrow> SensorTriggerManager" where
  "logActivity ty message level m = m\<lparr>activityLog := take 50 ((ty, message, level) # activityLog m)\<rparr>"

text \<open>
  \<^verbatim>\<open>processTrigger(trigger)\<close>. The capture, \<^verbatim>\<open>captureTriggeredPhoto\<close>, is a parameter: a
  function on the state of the device and the backend that returns whether the photo
  was captured and uploaded (it catches its own errors, so the \<^verbatim>\<open>catch\<close> of
  \<^verbatim>\<open>processTrigger\<close> has nothing to catch). The two result messages start with a
  pictograph in the source, left out here; writing the counters to local storage and
  redrawing the page are left out too.
\<close>

definition processTrigger ::
  "('w \<Rightarrow> sensor_row \<Rightarrow> 'w \<times> bool) \<Rightarrow> request_outcome \<Rightarrow> sensor_row
   \<Rightarrow> sensor_row list \<times> SensorTriggerManager \<times> 'w
   \<Rightarrow> sensor_row list \<times> SensorTriggerManager \<times> 'w" where
  "processTrigger captureTriggeredPhoto outcome trigger s =
     (case s of (tbl, m, world) \<Rightarrow>
        (let m1 = logActivity ''Trigger''
                    (''Processing trigger ID: '' @ take 8 (trigger_id trigger) @ ''...'') ''info'' m;
             (tbl1, markResult) = markTriggerAsProcessed tbl outcome (trigger_id trigger)
         in if \<not> markResult then (tbl1, m1, world)
            else (let m2 = m1\<lparr>totalTriggers := totalTriggers m1 + 1,
                               todayTriggers := todayTriggers m1 + 1,
                               lastTriggerTime := Some (created_at trigger),
                               lastProcessedId := Some (created_at trigger)\<rparr>;
                      (world1, success) = captureTriggeredPhoto world trigger
                  in if success
                     then (tbl1,
                           logActivity ''Capture''
                             (''Successfully captured photo for trigger ''
                                @ take 8 (trigger_id trigger) @ ''...'') ''capture''
                             (m2\<lparr>successfulCaptures := successfulCaptures m2 + 1\<rparr>),
                           world1)
                     else (tbl1,
                           logActivity ''Error''
                             (''Failed to capture photo for trigger ''
                                @ take 8 (trigger_id trigger) @ ''...'') ''error''
                             (m2\<lparr>failedCaptures := failedCaptures m2 + 1\<rparr>),
                           world1))))"

text \<open>
  Claim attempts on one trigger by a sequence of claimants, one after the other, each
  with the outcome of its request: the table at the end and each claimant's result.
\<close>

fun claim_attempts ::
  "sensor_row list \<Rightarrow> string \<Rightarrow> request_outcome list \<Rightarrow> sensor_row list \<times> bool list" where
  "claim_attempts tbl i [] = (tbl, [])"
| "claim_attempts tbl i (outcome # rest) =
     (let (tbl1, r) = markTriggerAsProcessed tbl outcome i;
          (tbl2, rs) = claim_attempts tbl1 i rest
      in (tbl2, r # rs))"

text \<open>A trigger is unclaimed in a table when a row with its identifier has the
  consumed flag off.\<close>

definition unclaimed :: "sensor_row list \<Rightarrow> string \<Rightarrow> bool" where
  "unclaimed tbl i = list_ex (\<lambda>r. trigger_id r = i \<and> processed r = False) tbl"

section \<open>SensorTriggerManager: camera capture\<close>

text \<open>
  \<^verbatim>\<open>accessCameraAndCapture\<close> returns a promise. Its executor awaits \<^verbatim>\<open>getUserMedia\<close>,
  stores the stream in the manager's field \<^verbatim>\<open>this.currentStream\<close>, installs the video
  handlers and then a 10 s timer, and leaves the rest to callbacks. The field and the
  device are shared by all calls of the routine, and nothing keeps a second call from
  starting while one is in flight (the poller is a \<^verbatim>\<open>setInterval\<close>). The model is
  event-driven: the shared state, the state of one call, and one step per thing that
  can happen to a call.
\<close>

type_synonym stream = nat

datatype capture_error =
    CameraAccessError  \<comment> \<open>\<^verbatim>\<open>getUserMedia\<close> threw\<close>
  | VideoElementError
  | PlayError
  | CaptureError  \<comment> \<open>drawing the frame threw\<close>
  | BlobError  \<comment> \<open>'Failed to create image blob'\<close>
  | CaptureTimeout  \<comment> \<open>'Camera capture timeout after 10 seconds'\<close>

datatype settlement = Resolved nat | Rejected capture_error

text \<open>What a call does that matters here, in the order it does it: stopping the
  tracks of a stream, and calling \<^verbatim>\<open>resolve\<close> or \<^verbatim>\<open>reject\<close>.\<close>

datatype camera_action = TracksStopped stream | Settled settlement

datatype timer_callback = CaptureTimer | TimeoutTimer

text \<open>Shared by all calls: the manager's field \<^verbatim>\<open>currentStream\<close>, and the streams of the
  device whose tracks are running.\<close>

record camera_device =
  currentStream :: "stream option"
  liveStreams :: "stream set"

text \<open>
  One call: the executor's constant \<^verbatim>\<open>stream\<close> (\<^verbatim>\<open>None\<close> until \<^verbatim>\<open>getUserMedia\<close> has
  answered), the promise (settled by the first \<^verbatim>\<open>resolve\<close> or \<^verbatim>\<open>reject\<close>), the timers
  that are set and have not fired (delay in ms, callback), and the actions so far.
\<close>

record capture_call =
  call_stream :: "stream option"
  promise :: "settlement option"
  timers :: "(nat \<times> timer_callback) list"
  actions :: "camera_action list"

text \<open>A call that has just been made: \<^verbatim>\<open>getUserMedia\<close> is asked and has not answered;
  no handler and no timer is installed yet.\<close>

definition new_call :: capture_call where
  "new_call = \<lparr>call_stream = None, promise = None, timers = [], actions = []\<rparr>"

definition awaiting_stream :: "capture_call \<Rightarrow> bool" where
  "awaiting_stream c = (call_stream c = None \<and> promise c = None)"

text \<open>\<^verbatim>\<open>stopCameraStream()\<close> stops the tracks of whatever stream the field holds and
  clears the field.\<close>

definition stopCameraStream ::
  "camera_device \<times> capture_call \<Rightarrow> camera_device \<times> capture_call" where
  "stopCameraStream s =
     (case s of (d, c) \<Rightarrow>
        (case currentStream d of
           None \<Rightarrow> (d, c)
         | Some h \<Rightarrow> (d\<lparr>liveStreams := liveStreams d - {h}, currentStream := None\<rparr>,
                      c\<lparr>actions := actions c @ [TracksStopped h]\<rparr>)))"

text \<open>\<^verbatim>\<open>resolve(...)\<close> and \<^verbatim>\<open>reject(...)\<close>: only the first call settles the promise.\<close>

definition settle ::
  "settlement \<Rightarrow> camera_device \<times> capture_call \<Rightarrow> camera_device \<times> capture_call" where
  "settle r s =
     (case s of (d, c) \<Rightarrow>
        (d, c\<lparr>promise := (case promise c of None \<Rightarrow> Some r | Some r0 \<Rightarrow> Some r0),
              actions := actions c @ [Settled r]\<rparr>))"

text \<open>What the 3 s capture callback meets: drawing throws, or \<^verbatim>\<open>toBlob\<close> calls back
  with \<^verbatim>\<open>null\<close> or with a blob of some size.\<close>

datatype capture_outcome = DrawThrew | Blob "nat option"

text \<open>
  What can happen to a call: \<^verbatim>\<open>getUserMedia\<close> answers with a stream or throws;
  \<^verbatim>\<open>onloadedmetadata\<close> fires and \<^verbatim>\<open>play()\<close> is fulfilled or rejected; \<^verbatim>\<open>onerror\<close> fires;
  the capture timer fires; the timeout timer fires.
\<close>

datatype camera_event =
    GotStream stream
  | GetUserMediaFailed
  | MetadataLoadedPlayOk
  | MetadataLoadedPlayFailed
  | VideoErrorEvent
  | CaptureTimerFired capture_outcome
  | TimeoutFired

text \<open>
  One step of a call on the shared state. An event that cannot happen in the call's
  state changes nothing: \<^verbatim>\<open>getUserMedia\<close> answers once, the video handlers exist once
  the stream is there, and a timer fires once and only if it has been set. The 10 s
  timer is set when the stream arrives, after the handlers; the 3 s timer when playback
  has started.
\<close>

definition on_event ::
  "camera_event \<Rightarrow> camera_device \<times> capture_call \<Rightarrow> camera_device \<times> capture_call" where
  "on_event e s =
     (case s of (d, c) \<Rightarrow>
        (case e of
           GotStream h \<Rightarrow>
             if awaiting_stream c
             then (d\<lparr>currentStream := Some h, liveStreams := insert h (liveStreams d)\<rparr>,
                   c\<lparr>call_stream := Some h, timers := timers c @ [(10000, TimeoutTimer)]\<rparr>)
             else s
         | GetUserMediaFailed \<Rightarrow>
             if awaiting_stream c
             then settle (Rejected CameraAccessError) (stopCameraStream s)
             else s
         | MetadataLoadedPlayOk \<Rightarrow>
             if call_stream c \<noteq> None
             then (d, c\<lparr>timers := timers c @ [(3000, CaptureTimer)]\<rparr>)
             else s
         | MetadataLoadedPlayFailed \<Rightarrow>
             if call_stream c \<noteq> None
             then settle (Rejected PlayError) (stopCameraStream s)
             else s
         | VideoErrorEvent \<Rightarrow>
             if call_stream c \<noteq> None
             then settle (Rejected VideoElementError) (stopCameraStream s)
             else s
         | CaptureTimerFired out \<Rightarrow>
             if (3000, CaptureTimer) \<in> set (timers c)
             then (let s1 = (d, c\<lparr>timers := remove1 (3000, CaptureTimer) (timers c)\<rparr>)
                   in case out of
                        DrawThrew \<Rightarrow> settle (Rejected CaptureError) (stopCameraStream s1)
                      | Blob b \<Rightarrow>
                          (let s2 = stopCameraStream s1
                           in case b of
                                None \<Rightarrow> settle (Rejected BlobError) s2
                              | Some n \<Rightarrow> if n > 0 then settle (Resolved n) s2
                                          else settle (Rejected BlobError) s2))
             else s
         | TimeoutFired \<Rightarrow>
             if (10000, TimeoutTimer) \<in> set (timers c)
             then settle (Rejected CaptureTimeout)
                    (stopCameraStream
                       (d, c\<lparr>timers := remove1 (10000, TimeoutTimer) (timers c)\<rparr>))
             else s))"

text \<open>One call of \<^verbatim>\<open>accessCameraAndCapture\<close> with no other call in between: from the
  call on, the events of the call in the order they happen.\<close>

definition accessCameraAndCapture ::
  "camera_event list \<Rightarrow> camera_device \<Rightarrow> camera_device \<times> capture_call" where
  "accessCameraAndCapture events d = foldl (\<lambda>s e. on_event e s) (d, new_call) events"

text \<open>
  Several calls on the one manager, as overlapping polls make them: each event belongs
  to a call (by number) and steps that call on the shared state. Every call starts as a
  new call.
\<close>

definition call_step ::
  "nat \<times> camera_event \<Rightarrow> camera_device \<times> (nat \<Rightarrow> capture_call)
   \<Rightarrow> camera_device \<times> (nat \<Rightarrow> capture_call)" where
  "call_step ie s =
     (case ie of (i, e) \<Rightarrow>
        (case s of (d, calls) \<Rightarrow>
           (case on_event e (d, calls i) of (d1, c1) \<Rightarrow> (d1, calls(i := c1)))))"

definition run_calls ::
  "(nat \<times> camera_event) list \<Rightarrow> camera_device
   \<Rightarrow> camera_device \<times> (nat \<Rightarrow> capture_call)" where
  "run_calls events d = foldl (\<lambda>s ie. call_step ie s) (d, \<lambda>i. new_call) events"

text \<open>In a list of actions, the tracks of stream \<^verbatim>\<open>h\<close> are stopped before the first call
  of \<^verbatim>\<open>resolve\<close> or \<^verbatim>\<open>reject\<close> (if there is one).\<close>

fun released_before_settled :: "stream \<Rightarrow> camera_action list \<Rightarrow> bool" where
  "released_before_settled h [] = True"
| "released_before_settled h (TracksStopped k # rest) = (k = h \<or> released_before_settled h rest)"
| "released_before_settled h (Settled r # rest) = False"

text \<open>The two phases of a call that holds stream \<open>h\<close> with no other call in between:
  nothing done yet, or the stream released and every settling after that.\<close>

definition holding :: "stream \<Rightarrow> camera_device \<times> capture_call \<Rightarrow> bool" where
  "holding h s =
     (case s of (d, c) \<Rightarrow>
        currentStream d = Some h \<and> call_stream c = Some h \<and> actions c = []
        \<and> promise c = None)"

definition released :: "stream \<Rightarrow> camera_device \<times> capture_call \<Rightarrow> bool" where
  "released h s =
     (case s of (d, c) \<Rightarrow>
        call_stream c = Some h \<and> h \<notin> liveStreams d \<and> TracksStopped h \<in> set (actions c)
        \<and> released_before_settled h (actions c))"

text \<open>
  No camera in use, and two overlapping calls: the second call gets its stream while
  the first still holds its own; then each call starts playback, captures (the first
  gets its image, the second, whose stream the first has stopped, gets none) and sees
  its 10 s timer fire.
\<close>

definition idle_device :: camera_device where
  "idle_device = \<lparr>currentStream = None, liveStreams = {}\<rparr>"

definition overlapping_calls :: "(nat \<times> camera_event) list" where
  "overlapping_calls =
     [(0, GotStream 1), (1, GotStream 2),
      (0, MetadataLoadedPlayOk), (1, MetadataLoadedPlayOk),
      (0, CaptureTimerFired (Blob (Some 2048))), (1, CaptureTimerFired (Blob None)),
      (0, TimeoutFired), (1, TimeoutFired)]"

section \<open>A sample page\<close>

text \<open>
  One 2 MB JPEG queued on a connected page whose geolocation manager has no cached fix,
  and an environment in which every step of the upload succeeds.
\<close>

definition sample_file :: js_file where
  "sample_file = \<lparr>fname = ''sand.jpg'', fsize = 2097152, ftype = ''image/jpeg''\<rparr>"

definition sample_geo :: GeolocationManager where
  "sample_geo = \<lparr>currentLocation = None, isLocationEnabled = False,
                  locationPermission = Prompt, fixRequests = 0\<rparr>"

definition sample_window :: window where
  "sample_window =
     \<lparr> isConnected = True, geolocationManager = Some sample_geo, storage = Map.empty,
       uploads = [], toasts = [], console = [], selectedFiles = [sample_file],
       isUploading = False, uploadAborted = False, validatorCalls = 0 \<rparr>"

definition sample_geo_env :: geo_env where
  "sample_geo_env = \<lparr>geo_supported = True, reply = Position 12 77 5, clock_now = 1000,
                      clock_at_fix = 1001\<rparr>"

definition sample_env :: upload_env where
  "sample_env =
     \<lparr> date_now = 7, storage_fault = None, location_env = sample_geo_env,
       uploaded_at_now = 1002, insert_fault = None, assigned_id = ''u1'',
       analysis = AnalysisResult True, cancel_clicked = False \<rparr>"

text \<open>
  A page on which the location permission is denied and nothing is queued yet, the
  device's answer to a fix request there, and an empty image file.
\<close>

definition denied_page :: window where
  "denied_page =
     \<lparr> isConnected = True,
       geolocationManager = Some (sample_geo\<lparr>locationPermission := Denied\<rparr>),
       storage = Map.empty, uploads = [], toasts = [], console = [], selectedFiles = [],
       isUploading = False, uploadAborted = False, validatorCalls = 0 \<rparr>"

definition denied_env :: geo_env where
  "denied_env = sample_geo_env\<lparr>reply := PositionError PERMISSION_DENIED\<rparr>"

definition empty_file :: js_file where
  "empty_file = \<lparr>fname = ''empty.png'', fsize = 0, ftype = ''image/png''\<rparr>"

section \<open>Validation: theorems\<close>

lemma validate_each_fst:
  "fst (validate_each cfg selected files) = filter (\<lambda>f. validateFile cfg selected f = Valid) files"
  by (induction files) (auto split: prod.splits validation.splits)

lemma validate_each_all_valid:
  "\<forall>f \<in> set files. validateFile cfg selected f = Valid \<Longrightarrow>
   validate_each cfg selected files = (files, [])"
  by (induction files) (auto split: prod.splits validation.splits)

text \<open>
  C3. \<^verbatim>\<open>validateFile\<close> reports the first matching reason of the fixed order
  not-an-image, unsupported-type, too-large, empty-file, duplicate, and accepts a file
  that matches none. In particular a file over the size ceiling whose type is valid is
  rejected as too large, and a file whose MIME type is outside the allow-list is
  rejected whatever its size (as not an image or as an unsupported type).
\<close>

theorem validateFile_first_reason:
  "validateFile cfg selected f = spec_first_reason cfg selected f
   \<and> (startsWith (ftype f) ''image/'' \<and> ftype f \<in> set (allowedTypes cfg)
        \<and> maxFileSize cfg < fsize f
      \<longrightarrow> validateFile cfg selected f = Invalid FileSizeExceedsLimit)
   \<and> (ftype f \<notin> set (allowedTypes cfg)
      \<longrightarrow> validateFile cfg selected f = Invalid OnlyImageFilesAllowed
          \<or> validateFile cfg selected f = Invalid FileTypeNotSupported)"
  by (auto simp: validateFile_def spec_first_reason_def spec_rejection_checks_def list_ex_iff)

theorem validateFile_first_reason_witness:
  "validateFile APP_CONFIG [] \<lparr>fname = ''big.png'', fsize = 20000000, ftype = ''image/png''\<rparr>
     = Invalid FileSizeExceedsLimit
   \<and> (validateFile APP_CONFIG [] \<lparr>fname = ''a.bmp'', fsize = 20000000, ftype = ''image/bmp''\<rparr>
        = Invalid OnlyImageFilesAllowed
      \<or> validateFile APP_CONFIG [] \<lparr>fname = ''a.bmp'', fsize = 20000000, ftype = ''image/bmp''\<rparr>
        = Invalid FileTypeNotSupported)"
proof -
  let ?big = "\<lparr>fname = ''big.png'', fsize = 20000000, ftype = ''image/png''\<rparr>"
  let ?bmp = "\<lparr>fname = ''a.bmp'', fsize = 20000000, ftype = ''image/bmp''\<rparr>"
  have t: "startsWith (ftype ?big) ''image/'' \<and> ftype ?big \<in> set (allowedTypes APP_CONFIG)
           \<and> maxFileSize APP_CONFIG < fsize ?big"
    by (simp add: startsWith_def APP_CONFIG_def)
  have u: "ftype ?bmp \<notin> set (allowedTypes APP_CONFIG)"
    by (simp add: APP_CONFIG_def)
  from validateFile_first_reason [of APP_CONFIG "[]" ?big] t
  have 1: "validateFile APP_CONFIG [] ?big = Invalid FileSizeExceedsLimit" by blast
  from validateFile_first_reason [of APP_CONFIG "[]" ?bmp] u
  have 2: "validateFile APP_CONFIG [] ?bmp = Invalid OnlyImageFilesAllowed
           \<or> validateFile APP_CONFIG [] ?bmp = Invalid FileTypeNotSupported" by blast
  from 1 2 show ?thesis by blast
qed

text \<open>
  C2. Two files with the same name and size handed to one \<^verbatim>\<open>addFiles\<close> call are both
  queued and no rejection is reported: the duplicate check reads the queue, which is
  extended only after the whole batch has been validated. Across two calls the second
  copy is rejected as 'Duplicate file', and a file of the same name and another size is
  accepted.
\<close>

theorem addFiles_same_batch_duplicate_accepted:
  "addFiles APP_CONFIG []
     [\<lparr>fname = ''sand.jpg'', fsize = 2048, ftype = ''image/jpeg''\<rparr>,
      \<lparr>fname = ''sand.jpg'', fsize = 2048, ftype = ''image/jpeg''\<rparr>,
      \<lparr>fname = ''sand.jpg'', fsize = 4096, ftype = ''image/jpeg''\<rparr>]
   = ([\<lparr>fname = ''sand.jpg'', fsize = 2048, ftype = ''image/jpeg''\<rparr>,
       \<lparr>fname = ''sand.jpg'', fsize = 2048, ftype = ''image/jpeg''\<rparr>,
       \<lparr>fname = ''sand.jpg'', fsize = 4096, ftype = ''image/jpeg''\<rparr>], [])
   \<and> addFiles APP_CONFIG [\<lparr>fname = ''sand.jpg'', fsize = 2048, ftype = ''image/jpeg''\<rparr>]
     [\<lparr>fname = ''sand.jpg'', fsize = 2048, ftype = ''image/jpeg''\<rparr>,
      \<lparr>fname = ''sand.jpg'', fsize = 4096, ftype = ''image/jpeg''\<rparr>]
   = ([\<lparr>fname = ''sand.jpg'', fsize = 2048, ftype = ''image/jpeg''\<rparr>,
       \<lparr>fname = ''sand.jpg'', fsize = 4096, ftype = ''image/jpeg''\<rparr>],
      [(SomeFilesRejected [(''sand.jpg'', DuplicateFile)], Warning)])"
  by (simp add: addFiles_def validateFile_def startsWith_def APP_CONFIG_def)

text \<open>A queue within the limit stays within the limit, whatever is added.\<close>

lemma addFiles_within_limit:
  assumes "length selected \<le> maxFiles cfg"
  shows "length (fst (addFiles cfg selected files)) \<le> maxFiles cfg"
proof -
  obtain validFiles errors where v: "validate_each cfg selected files = (validFiles, errors)"
    by (cases "validate_each cfg selected files")
  have k: "splice_from (int (maxFiles cfg) - int (length selected)) validFiles
             = take (maxFiles cfg - length selected) validFiles"
    using assms by (simp add: splice_from_def nat_diff_distrib')
  show ?thesis
    using assms by (simp add: addFiles_def Let_def v k)
qed

text \<open>
  C4. A batch of more than \<^verbatim>\<open>maxFiles\<close> files, each of which passes validation, added
  to a queue within the limit: the queue takes the first files of the batch up to the
  limit and then holds exactly \<^verbatim>\<open>maxFiles\<close> files (exactly the first \<^verbatim>\<open>maxFiles\<close> of the
  batch when the queue was empty), the rest are dropped, and the only toast is the one
  batch-level warning: no per-file rejection is reported.
\<close>

theorem addFiles_truncates_to_maxFiles:
  assumes "\<forall>f \<in> set files. validateFile cfg selected f = Valid"
    and "maxFiles cfg < length files"
    and "length selected \<le> maxFiles cfg"
  shows "fst (addFiles cfg selected files)
           = selected @ take (maxFiles cfg - length selected) files
         \<and> length (fst (addFiles cfg selected files)) = maxFiles cfg
         \<and> (selected = [] \<longrightarrow> fst (addFiles cfg selected files) = take (maxFiles cfg) files)
         \<and> snd (addFiles cfg selected files)
           = [(MaximumFilesAllowed (maxFiles cfg) (int (maxFiles cfg) - int (length selected)),
               Warning)]"
proof -
  have v: "validate_each cfg selected files = (files, [])"
    using assms(1) by (rule validate_each_all_valid)
  have k: "splice_from (int (maxFiles cfg) - int (length selected)) files
             = take (maxFiles cfg - length selected) files"
    using assms(3) by (simp add: splice_from_def nat_diff_distrib')
  have q: "fst (addFiles cfg selected files)
             = selected @ take (maxFiles cfg - length selected) files"
    using assms(2) by (simp add: addFiles_def Let_def v k)
  have t: "snd (addFiles cfg selected files)
             = [(MaximumFilesAllowed (maxFiles cfg) (int (maxFiles cfg) - int (length selected)),
                 Warning)]"
    using assms(2) by (simp add: addFiles_def Let_def v)
  have l: "length (fst (addFiles cfg selected files)) = maxFiles cfg"
    using assms(2,3) by (simp add: q)
  from q t l show ?thesis by auto
qed

theorem addFiles_truncates_to_maxFiles_witness:
  "fst (addFiles (APP_CONFIG\<lparr>maxFiles := 2\<rparr>) []
     [\<lparr>fname = ''a.png'', fsize = 1, ftype = ''image/png''\<rparr>,
      \<lparr>fname = ''b.png'', fsize = 2, ftype = ''image/png''\<rparr>,
      \<lparr>fname = ''c.png'', fsize = 3, ftype = ''image/png''\<rparr>])
   = [\<lparr>fname = ''a.png'', fsize = 1, ftype = ''image/png''\<rparr>,
      \<lparr>fname = ''b.png'', fsize = 2, ftype = ''image/png''\<rparr>]
   \<and> snd (addFiles (APP_CONFIG\<lparr>maxFiles := 2\<rparr>) []
     [\<lparr>fname = ''a.png'', fsize = 1, ftype = ''image/png''\<rparr>,
      \<lparr>fname = ''b.png'', fsize = 2, ftype = ''image/png''\<rparr>,
      \<lparr>fname = ''c.png'', fsize = 3, ftype = ''image/png''\<rparr>])
   = [(MaximumFilesAllowed 2 2, Warning)]"
proof -
  let ?cfg = "APP_CONFIG\<lparr>maxFiles := 2\<rparr>"
  let ?files = "[\<lparr>fname = ''a.png'', fsize = 1, ftype = ''image/png''\<rparr>,
      \<lparr>fname = ''b.png'', fsize = 2, ftype = ''image/png''\<rparr>,
      \<lparr>fname = ''c.png'', fsize = 3, ftype = ''image/png''\<rparr>]"
  have a: "\<forall>f \<in> set ?files. validateFile ?cfg [] f = Valid"
    by (simp add: validateFile_def startsWith_def APP_CONFIG_def)
  have b: "maxFiles ?cfg < length ?files" by simp
  have c: "length ([] :: js_file list) \<le> maxFiles ?cfg" by simp
  from addFiles_truncates_to_maxFiles [OF a b c] show ?thesis by simp
qed

section \<open>Geolocation: theorems\<close>

lemma getCurrentLocation_requests:
  "geo_supported env \<Longrightarrow>
   fixRequests (fst (getCurrentLocation geo env)) = fixRequests geo + 1"
  by (simp add: getCurrentLocation_def handleLocationError_def Let_def
      split: device_reply.splits prod.splits)

text \<open>
  C9, as the claim states it, fails at the boundary: a cached fix whose age is exactly
  five minutes (300000 ms) is not under the threshold, yet \<^verbatim>\<open>getLocationForUpload\<close>
  returns it and requests no new fix.
\<close>

theorem getLocationForUpload_boundary_counterexample:
  "\<not> (300000 - timestamp \<lparr>latitude = 12, longitude = 77, accuracy = 5, timestamp = 0\<rparr>
        < (5 * 60 * 1000 :: int))
   \<and> getLocationForUpload
       \<lparr>currentLocation = Some \<lparr>latitude = 12, longitude = 77, accuracy = 5, timestamp = 0\<rparr>,
        isLocationEnabled = True, locationPermission = Granted, fixRequests = 1\<rparr>
       \<lparr>geo_supported = True, reply = Position 13 78 5, clock_now = 300000,
        clock_at_fix = 300001\<rparr>
     = (\<lparr>currentLocation = Some \<lparr>latitude = 12, longitude = 77, accuracy = 5, timestamp = 0\<rparr>,
         isLocationEnabled = True, locationPermission = Granted, fixRequests = 1\<rparr>,
        [], Some \<lparr>latitude = 12, longitude = 77, accuracy = 5, timestamp = 0\<rparr>)"
  by (simp add: getLocationForUpload_def)

text \<open>
  C9, amended. With geolocation supported, \<^verbatim>\<open>getLocationForUpload\<close> returns the cached
  fix, changes nothing and requests no fix whenever the cached fix is at most five
  minutes old; when there is no cached fix or it is older than five minutes, it issues
  exactly one request and returns the new fix, or \<^verbatim>\<open>null\<close> when the request fails.
\<close>

theorem getLocationForUpload_cache:
  assumes "geo_supported env"
  shows "(\<forall>c. currentLocation geo = Some c \<and> clock_now env - timestamp c \<le> 5 * 60 * 1000
            \<longrightarrow> getLocationForUpload geo env = (geo, [], Some c))
       \<and> (currentLocation geo = None
            \<or> (\<exists>c. currentLocation geo = Some c \<and> 5 * 60 * 1000 < clock_now env - timestamp c)
          \<longrightarrow> fixRequests (fst (getLocationForUpload geo env)) = fixRequests geo + 1
              \<and> snd (snd (getLocationForUpload geo env))
                = (case reply env of
                     Position lat lng acc \<Rightarrow>
                       Some \<lparr>latitude = lat, longitude = lng, accuracy = acc,
                             timestamp = clock_at_fix env\<rparr>
                   | PositionError e \<Rightarrow> None))"
proof (intro conjI allI impI)
  fix c
  assume "currentLocation geo = Some c \<and> clock_now env - timestamp c \<le> 5 * 60 * 1000"
  with assms show "getLocationForUpload geo env = (geo, [], Some c)"
    by (simp add: getLocationForUpload_def)
next
  assume s: "currentLocation geo = None
    \<or> (\<exists>c. currentLocation geo = Some c \<and> 5 * 60 * 1000 < clock_now env - timestamp c)"
  with assms show "fixRequests (fst (getLocationForUpload geo env)) = fixRequests geo + 1"
    by (auto simp: getLocationForUpload_def getCurrentLocation_def handleLocationError_def
        Let_def split: device_reply.splits prod.splits)
  from s assms show "snd (snd (getLocationForUpload geo env))
      = (case reply env of
           Position lat lng acc \<Rightarrow>
             Some \<lparr>latitude = lat, longitude = lng, accuracy = acc,
                   timestamp = clock_at_fix env\<rparr>
         | PositionError e \<Rightarrow> None)"
    by (auto simp: getLocationForUpload_def getCurrentLocation_def handleLocationError_def
        Let_def split: device_reply.splits prod.splits)
qed

theorem getLocationForUpload_cache_witness:
  "getLocationForUpload
     \<lparr>currentLocation = Some \<lparr>latitude = 12, longitude = 77, accuracy = 5, timestamp = 1000\<rparr>,
      isLocationEnabled = True, locationPermission = Granted, fixRequests = 1\<rparr>
     \<lparr>geo_supported = True, reply = Position 13 78 5, clock_now = 200000,
      clock_at_fix = 200001\<rparr>
   = (\<lparr>currentLocation = Some \<lparr>latitude = 12, longitude = 77, accuracy = 5, timestamp = 1000\<rparr>,
       isLocationEnabled = True, locationPermission = Granted, fixRequests = 1\<rparr>,
      [], Some \<lparr>latitude = 12, longitude = 77, accuracy = 5, timestamp = 1000\<rparr>)
   \<and> fixRequests (fst (getLocationForUpload
       \<lparr>currentLocation = Some \<lparr>latitude = 12, longitude = 77, accuracy = 5, timestamp = 1000\<rparr>,
        isLocationEnabled = True, locationPermission = Granted, fixRequests = 1\<rparr>
       \<lparr>geo_supported = True, reply = Position 13 78 5, clock_now = 400000,
        clock_at_fix = 400001\<rparr>)) = 2"
proof -
  let ?c = "\<lparr>latitude = 12, longitude = 77, accuracy = 5, timestamp = 1000\<rparr>"
  let ?g = "\<lparr>currentLocation = Some ?c, isLocationEnabled = True,
             locationPermission = Granted, fixRequests = 1\<rparr>"
  let ?fresh = "\<lparr>geo_supported = True, reply = Position 13 78 5, clock_now = 200000,
                 clock_at_fix = 200001\<rparr>"
  let ?late = "\<lparr>geo_supported = True, reply = Position 13 78 5, clock_now = 400000,
                clock_at_fix = 400001\<rparr>"
  have a: "geo_supported ?fresh" and b: "geo_supported ?late" by simp_all
  have 1: "getLocationForUpload ?g ?fresh = (?g, [], Some ?c)"
    using getLocationForUpload_cache [OF a, of ?g] by simp
  have 2: "fixRequests (fst (getLocationForUpload ?g ?late)) = fixRequests ?g + 1"
    using getLocationForUpload_cache [OF b, of ?g] by simp
  from 1 2 show ?thesis by simp
qed

section \<open>Upload sequence: theorems\<close>

lemma checkConnection_connected: "isConnected w \<Longrightarrow> checkConnection w = (w, True)"
  by (simp add: checkConnection_def)

lemma uploadFile_stored:
  assumes "isConnected w" and "uploadFile w env f k = (w1, Inr (Some path))"
  shows "w1 = w\<lparr>storage := (storage w)(k \<mapsto> f)\<rparr> \<and> path = k"
  using assms
  by (auto simp: uploadFile_def checkConnection_connected split: if_splits option.splits)

text \<open>
  The upload sequence once the object is stored and the location is resolved: what is
  left is the metadata insert and, after it, the analysis trigger.
\<close>

lemma completeUpload_after_location:
  assumes c: "isConnected w"
    and u: "uploadFile w env f (uniqueFileName (date_now env) f) = (w1, Inr (Some path))"
    and g: "geolocationManager w = Some geo"
    and l: "getLocationForUpload geo (location_env env) = (geo1, ts, Some loc)"
  shows "completeUpload w env f =
     (let fileName = uniqueFileName (date_now env) f;
          publicUrl = Some (encodeURI (url SUPABASE_CONFIG @ ''/storage/v1/object/public/''
                                       @ bucketName SUPABASE_CONFIG @ ''/'' @ fileName));
          w3 = showToast ts (w\<lparr>storage := (storage w)(fileName \<mapsto> f),
                                geolocationManager := Some geo1\<rparr>);
          row = \<lparr> row_id = assigned_id env, file_name = fname f, file_size = fsize f,
                  file_type = ftype f, file_url = publicUrl,
                  uploaded_at = uploaded_at_now env, row_location = Some loc \<rparr>
      in case insert_fault env of
           Some msg \<Rightarrow> (w3, Inl (FailedToSaveMetadata msg))
         | None \<Rightarrow>
             (triggerAnalysis (Some row) (analysis env) (w3\<lparr>uploads := uploads w3 @ [row]\<rparr>),
              Inr (Some \<lparr> metadata = Some row, storage_path = fileName,
                          public_url = publicUrl \<rparr>)))"
proof -
  from uploadFile_stored [OF c u]
  have u': "uploadFile w env f (uniqueFileName (date_now env) f)
      = (w\<lparr>storage := (storage w)(uniqueFileName (date_now env) f \<mapsto> f)\<rparr>,
         Inr (Some (uniqueFileName (date_now env) f)))"
    using u by simp
  show ?thesis
    using c g l
    by (simp add: completeUpload_def checkConnection_def getPublicUrl_def
        saveUploadMetadata_def showToast_def Let_def u'
        split: option.splits)
qed

lemma sample_uploadFile:
  "uploadFile sample_window (sample_env\<lparr>insert_fault := x, analysis := a\<rparr>) sample_file
     (uniqueFileName 7 sample_file)
   = (sample_window\<lparr>storage := [uniqueFileName 7 sample_file \<mapsto> sample_file]\<rparr>,
      Inr (Some (uniqueFileName 7 sample_file)))"
  by (simp add: uploadFile_def checkConnection_def sample_window_def sample_env_def
      sample_file_def startsWith_def)

lemma sample_location:
  "getLocationForUpload sample_geo sample_geo_env
   = (\<lparr>currentLocation = Some \<lparr>latitude = 12, longitude = 77, accuracy = 5, timestamp = 1001\<rparr>,
       isLocationEnabled = True, locationPermission = Prompt, fixRequests = 1\<rparr>, [],
      Some \<lparr>latitude = 12, longitude = 77, accuracy = 5, timestamp = 1001\<rparr>)"
  by (simp add: getLocationForUpload_def getCurrentLocation_def sample_geo_def
      sample_geo_env_def Let_def)

lemma uploadFile_analysis_irrelevant:
  "uploadFile w (env\<lparr>analysis := a\<rparr>) f k = uploadFile w env f k"
  by (simp add: uploadFile_def split: prod.splits bool.splits)

text \<open>
  C6. When the object has been stored and the location resolved but the metadata insert
  fails, \<^verbatim>\<open>completeUpload\<close> throws the metadata error, the \<^verbatim>\<open>uploads\<close> table is as
  before (no row for the file), and nothing is rolled back: the bucket holds the object
  under its key, no key has been removed, and the key still resolves to its public URL.
\<close>

theorem completeUpload_no_rollback:
  assumes "isConnected w"
    and "uploadFile w env f (uniqueFileName (date_now env) f) = (w1, Inr (Some path))"
    and "geolocationManager w = Some geo"
    and "getLocationForUpload geo (location_env env) = (geo1, ts, Some loc)"
    and "insert_fault env = Some msg"
  shows "snd (completeUpload w env f) = Inl (FailedToSaveMetadata msg)
       \<and> uploads (fst (completeUpload w env f)) = uploads w
       \<and> storage (fst (completeUpload w env f)) (uniqueFileName (date_now env) f) = Some f
       \<and> dom (storage (fst (completeUpload w env f)))
           = insert (uniqueFileName (date_now env) f) (dom (storage w))
       \<and> snd (getPublicUrl (fst (completeUpload w env f)) (uniqueFileName (date_now env) f))
           = Some (encodeURI (url SUPABASE_CONFIG @ ''/storage/v1/object/public/''
                   @ bucketName SUPABASE_CONFIG @ ''/'' @ uniqueFileName (date_now env) f))"
  using assms(1,5)
  by (simp add: completeUpload_after_location [OF assms(1-4)] Let_def showToast_def
      getPublicUrl_def checkConnection_def)

theorem completeUpload_no_rollback_witness:
  "snd (completeUpload sample_window (sample_env\<lparr>insert_fault := Some ''db down''\<rparr>) sample_file)
     = Inl (FailedToSaveMetadata ''db down'')
   \<and> uploads (fst (completeUpload sample_window
        (sample_env\<lparr>insert_fault := Some ''db down''\<rparr>) sample_file)) = []
   \<and> storage (fst (completeUpload sample_window
        (sample_env\<lparr>insert_fault := Some ''db down''\<rparr>) sample_file))
        (uniqueFileName 7 sample_file) = Some sample_file"
proof -
  let ?env = "sample_env\<lparr>insert_fault := Some ''db down''\<rparr>"
  have d: "date_now ?env = 7" by (simp add: sample_env_def)
  have a: "isConnected sample_window" by (simp add: sample_window_def)
  have b: "uploadFile sample_window ?env sample_file (uniqueFileName (date_now ?env) sample_file)
      = (sample_window\<lparr>storage := [uniqueFileName 7 sample_file \<mapsto> sample_file]\<rparr>,
         Inr (Some (uniqueFileName 7 sample_file)))"
    using sample_uploadFile [where x = "Some ''db down''" and a = "AnalysisResult True"]
    by (simp add: d sample_env_def)
  have c: "geolocationManager sample_window = Some sample_geo"
    by (simp add: sample_window_def)
  have e: "getLocationForUpload sample_geo (location_env ?env)
     = (\<lparr>currentLocation = Some \<lparr>latitude = 12, longitude = 77, accuracy = 5, timestamp = 1001\<rparr>,
       isLocationEnabled = True, locationPermission = Prompt, fixRequests = 1\<rparr>, [],
      Some \<lparr>latitude = 12, longitude = 77, accuracy = 5, timestamp = 1001\<rparr>)"
    using sample_location by (simp add: sample_env_def)
  have f: "insert_fault ?env = Some ''db down''" by simp
  from completeUpload_no_rollback [OF a b c e f] show ?thesis
    by (simp add: d sample_window_def)
qed

text \<open>
  C10. When the storage upload, the location and the metadata insert succeed,
  \<^verbatim>\<open>completeUpload\<close> returns the saved row with the storage path and the public URL
  whatever the analysis service does (the request throws, the body is not JSON, the
  service reports failure or success): the result is the same for every behaviour of
  the service, and the resulting states differ in the console line only.
\<close>

theorem completeUpload_analysis_failure_ignored:
  assumes "isConnected w"
    and "uploadFile w env f (uniqueFileName (date_now env) f) = (w1, Inr (Some path))"
    and "geolocationManager w = Some geo"
    and "getLocationForUpload geo (location_env env) = (geo1, ts, Some loc)"
    and "insert_fault env = None"
  shows "snd (completeUpload w (env\<lparr>analysis := a\<rparr>) f)
           = Inr (Some
               \<lparr> metadata = Some
                   \<lparr> row_id = assigned_id env, file_name = fname f, file_size = fsize f,
                     file_type = ftype f,
                     file_url = Some (encodeURI (url SUPABASE_CONFIG
                        @ ''/storage/v1/object/public/'' @ bucketName SUPABASE_CONFIG @ ''/''
                        @ uniqueFileName (date_now env) f)),
                     uploaded_at = uploaded_at_now env, row_location = Some loc \<rparr>,
                 storage_path = uniqueFileName (date_now env) f,
                 public_url = Some (encodeURI (url SUPABASE_CONFIG
                        @ ''/storage/v1/object/public/'' @ bucketName SUPABASE_CONFIG @ ''/''
                        @ uniqueFileName (date_now env) f)) \<rparr>)
       \<and> snd (completeUpload w (env\<lparr>analysis := a\<rparr>) f) = snd (completeUpload w env f)
       \<and> (fst (completeUpload w (env\<lparr>analysis := a\<rparr>) f))\<lparr>console := []\<rparr>
           = (fst (completeUpload w env f))\<lparr>console := []\<rparr>"
proof -
  have u: "uploadFile w (env\<lparr>analysis := a\<rparr>) f
             (uniqueFileName (date_now (env\<lparr>analysis := a\<rparr>)) f) = (w1, Inr (Some path))"
    using assms(2) by (simp add: uploadFile_analysis_irrelevant)
  have l: "getLocationForUpload geo (location_env (env\<lparr>analysis := a\<rparr>)) = (geo1, ts, Some loc)"
    using assms(4) by simp
  show ?thesis
    using assms(5)
    by (simp add: completeUpload_after_location [OF assms(1) u assms(3) l]
        completeUpload_after_location [OF assms(1-4)] Let_def triggerAnalysis_def
        split: analysis_reply.splits bool.splits)
qed

theorem completeUpload_analysis_failure_ignored_witness:
  "snd (completeUpload sample_window (sample_env\<lparr>analysis := FetchThrew\<rparr>) sample_file)
     = snd (completeUpload sample_window sample_env sample_file)
   \<and> (\<exists>r. snd (completeUpload sample_window (sample_env\<lparr>analysis := FetchThrew\<rparr>) sample_file)
         = Inr (Some r) \<and> storage_path r = uniqueFileName 7 sample_file)"
proof -
  have d: "date_now sample_env = 7" by (simp add: sample_env_def)
  have a: "isConnected sample_window" by (simp add: sample_window_def)
  have b: "uploadFile sample_window sample_env sample_file
             (uniqueFileName (date_now sample_env) sample_file)
      = (sample_window\<lparr>storage := [uniqueFileName 7 sample_file \<mapsto> sample_file]\<rparr>,
         Inr (Some (uniqueFileName 7 sample_file)))"
    using sample_uploadFile [where x = None and a = "AnalysisResult True"]
    by (simp add: d sample_env_def)
  have c: "geolocationManager sample_window = Some sample_geo"
    by (simp add: sample_window_def)
  have e: "getLocationForUpload sample_geo (location_env sample_env)
     = (\<lparr>currentLocation = Some \<lparr>latitude = 12, longitude = 77, accuracy = 5, timestamp = 1001\<rparr>,
       isLocationEnabled = True, locationPermission = Prompt, fixRequests = 1\<rparr>, [],
      Some \<lparr>latitude = 12, longitude = 77, accuracy = 5, timestamp = 1001\<rparr>)"
    using sample_location by (simp add: sample_env_def)
  have f: "insert_fault sample_env = None" by (simp add: sample_env_def)
  from completeUpload_analysis_failure_ignored [OF a b c e f, of FetchThrew] show ?thesis
    by (auto simp: d)
qed

lemma checkLocationPermission_fails:
  assumes "geolocationManager w = None \<or> \<not> geo_supported genv \<or> (\<exists>e. reply genv = PositionError e)"
  shows "\<exists>g ts. checkLocationPermission w genv
            = (w\<lparr>geolocationManager := g, toasts := toasts w @ ts\<rparr>, False)
          \<and> (ts = [] \<or> ts = [(LocationDeniedUploadsContinue, Warning)])"
proof (cases "geolocationManager w")
  case None
  then have "checkLocationPermission w genv
      = (w\<lparr>geolocationManager := None, toasts := toasts w @ []\<rparr>, False)"
    by (simp add: checkLocationPermission_def)
  then show ?thesis by blast
next
  case (Some geo)
  with assms have r: "\<not> geo_supported genv \<or> (\<exists>e. reply genv = PositionError e)" by simp
  show ?thesis
  proof (cases "geo_supported genv")
    case False
    with Some have "checkLocationPermission w genv
      = (w\<lparr>geolocationManager := Some (geo\<lparr>isLocationEnabled := False\<rparr>),
           toasts := toasts w @ []\<rparr>, False)"
      by (simp add: checkLocationPermission_def getCurrentLocation_def showToast_def)
    then show ?thesis by blast
  next
    case True
    with r obtain e where e: "reply genv = PositionError e" by blast
    show ?thesis
    proof (cases "e = PERMISSION_DENIED")
      case True
      with Some e \<open>geo_supported genv\<close> have "checkLocationPermission w genv
        = (w\<lparr>geolocationManager :=
               Some (geo\<lparr>fixRequests := fixRequests geo + 1, locationPermission := Denied,
                         isLocationEnabled := False\<rparr>),
             toasts := toasts w @ [(LocationDeniedUploadsContinue, Warning)]\<rparr>, False)"
        by (simp add: checkLocationPermission_def getCurrentLocation_def showToast_def
            handleLocationError_def Let_def)
      then show ?thesis by blast
    next
      case False
      with Some e \<open>geo_supported genv\<close> have "checkLocationPermission w genv
        = (w\<lparr>geolocationManager :=
               Some (geo\<lparr>fixRequests := fixRequests geo + 1, isLocationEnabled := False\<rparr>),
             toasts := toasts w @ []\<rparr>, False)"
        by (simp add: checkLocationPermission_def getCurrentLocation_def showToast_def
            handleLocationError_def Let_def)
      then show ?thesis by blast
    qed
  qed
qed

text \<open>
  C5, as the claim states it, fails in its clause on the Validator. With the location
  permission denied, submitting an empty file and a valid one and then starting the
  upload runs \<^verbatim>\<open>validateFile\<close> on both files: the empty one is rejected with its toast
  and the valid one is queued, before the location check of \<^verbatim>\<open>startUpload\<close> ends the
  upload with its notification and without a record.
\<close>

theorem validator_reached_without_location_counterexample:
  "snd (checkLocationPermission denied_page denied_env) = False
   \<and> validatorCalls (startUpload (handleFileSelect APP_CONFIG [empty_file, sample_file] denied_page)
        denied_env (\<lambda>i. sample_env)) = 2
   \<and> toasts (startUpload (handleFileSelect APP_CONFIG [empty_file, sample_file] denied_page)
        denied_env (\<lambda>i. sample_env))
     = [(SomeFilesRejected [(''empty.png'', FileIsEmpty)], Warning),
        (LocationDeniedUploadsContinue, Warning),
        (LocationRequiredForUploading, Error)]
   \<and> selectedFiles (startUpload (handleFileSelect APP_CONFIG [empty_file, sample_file] denied_page)
        denied_env (\<lambda>i. sample_env)) = [sample_file]
   \<and> uploads (startUpload (handleFileSelect APP_CONFIG [empty_file, sample_file] denied_page)
        denied_env (\<lambda>i. sample_env)) = []"
  by (simp add: startUpload_def handleFileSelect_def addFiles_def validateFile_def
      startsWith_def APP_CONFIG_def checkLocationPermission_def getCurrentLocation_def
      handleLocationError_def showToast_def denied_page_def denied_env_def empty_file_def
      sample_file_def sample_geo_def sample_geo_env_def Let_def)

lemma handleFileSelect_ignores_location:
  "handleFileSelect cfg files (w\<lparr>geolocationManager := g\<rparr>)
     = (handleFileSelect cfg files w)\<lparr>geolocationManager := g\<rparr>"
  by (simp add: handleFileSelect_def showToast_def split: prod.splits)

lemma handleFileSelect_validates_each:
  "validatorCalls (handleFileSelect cfg files w) = validatorCalls w + length files"
  by (simp add: handleFileSelect_def showToast_def split: prod.splits)

text \<open>
  C5, amended. With files queued and no upload running, when no location can be
  resolved (no geolocation manager, no geolocation support, or the device answers with
  an error such as a denied permission), \<^verbatim>\<open>startUpload\<close> only updates the geolocation
  manager and shows toasts: the last one is the error 'Location access is required for
  uploading ...', preceded at most by the manager's own 'Location access denied'
  warning. The \<^verbatim>\<open>uploads\<close> table, the bucket and the queue are untouched, the upload flag
  stays off, and \<^verbatim>\<open>startUpload\<close> itself calls the Validator for no file.
  \<^verbatim>\<open>completeUpload\<close>, when its location step yields nothing, inserts no row and returns
  no result: it never goes on without coordinates. The Validator is not behind the
  location check: it runs once for every file when files are added to the queue, and
  what it does there is the same whatever the state of the geolocation manager.
\<close>

theorem startUpload_without_location:
  assumes "selectedFiles w \<noteq> []" and "\<not> isUploading w"
    and "geolocationManager w = None \<or> \<not> geo_supported genv \<or> (\<exists>e. reply genv = PositionError e)"
  shows "(\<exists>g ts. startUpload w genv envs
            = w\<lparr>geolocationManager := g,
                toasts := toasts w @ ts @ [(LocationRequiredForUploading, Error)]\<rparr>
          \<and> (ts = [] \<or> ts = [(LocationDeniedUploadsContinue, Warning)]))
       \<and> uploads (startUpload w genv envs) = uploads w
       \<and> storage (startUpload w genv envs) = storage w
       \<and> selectedFiles (startUpload w genv envs) = selectedFiles w
       \<and> \<not> isUploading (startUpload w genv envs)
       \<and> validatorCalls (startUpload w genv envs) = validatorCalls w
       \<and> (\<forall>cfg files g.
             handleFileSelect cfg files (w\<lparr>geolocationManager := g\<rparr>)
               = (handleFileSelect cfg files w)\<lparr>geolocationManager := g\<rparr>
             \<and> validatorCalls (handleFileSelect cfg files w) = validatorCalls w + length files)
       \<and> (\<forall>env f. (case geolocationManager w of
                      None \<Rightarrow> True
                    | Some geo \<Rightarrow> snd (snd (getLocationForUpload geo (location_env env))) = None)
            \<longrightarrow> uploads (fst (completeUpload w env f)) = uploads w
                \<and> (\<forall>r. snd (completeUpload w env f) \<noteq> Inr (Some r)))"
proof -
  from checkLocationPermission_fails [OF assms(3)]
  obtain g ts where c: "checkLocationPermission w genv
            = (w\<lparr>geolocationManager := g, toasts := toasts w @ ts\<rparr>, False)"
     and t: "ts = [] \<or> ts = [(LocationDeniedUploadsContinue, Warning)]" by blast
  have s: "startUpload w genv envs
            = w\<lparr>geolocationManager := g,
                toasts := toasts w @ ts @ [(LocationRequiredForUploading, Error)]\<rparr>"
    using assms(1,2) by (simp add: startUpload_def c showToast_def)
  have p2: "uploads (fst (completeUpload w env f)) = uploads w
                \<and> (\<forall>r. snd (completeUpload w env f) \<noteq> Inr (Some r))"
    if "case geolocationManager w of
                      None \<Rightarrow> True
                    | Some geo \<Rightarrow> snd (snd (getLocationForUpload geo (location_env env))) = None"
    for env f
    using that
    by (auto simp: completeUpload_def checkConnection_def uploadFile_def getPublicUrl_def
        showToast_def Let_def split: option.splits if_splits prod.splits sum.splits)
  from s t p2 assms(2) handleFileSelect_ignores_location handleFileSelect_validates_each
  show ?thesis by auto
qed

theorem startUpload_without_location_witness:
  "uploads (startUpload sample_window (sample_geo_env\<lparr>reply := PositionError PERMISSION_DENIED\<rparr>)
      (\<lambda>i. sample_env)) = []
   \<and> selectedFiles (startUpload sample_window
      (sample_geo_env\<lparr>reply := PositionError PERMISSION_DENIED\<rparr>) (\<lambda>i. sample_env))
     = [sample_file]
   \<and> \<not> isUploading (startUpload sample_window
      (sample_geo_env\<lparr>reply := PositionError PERMISSION_DENIED\<rparr>) (\<lambda>i. sample_env))"
proof -
  let ?genv = "sample_geo_env\<lparr>reply := PositionError PERMISSION_DENIED\<rparr>"
  have a: "selectedFiles sample_window \<noteq> []" by (simp add: sample_window_def)
  have b: "\<not> isUploading sample_window" by (simp add: sample_window_def)
  have c: "geolocationManager sample_window = None \<or> \<not> geo_supported ?genv
           \<or> (\<exists>e. reply ?genv = PositionError e)" by simp
  from startUpload_without_location [OF a b c, of "\<lambda>i. sample_env"] show ?thesis
    by (simp add: sample_window_def)
qed

section \<open>Analysis records: theorems\<close>



section \<open>Trigger claims: theorems\<close>

lemma update_processed_claims:
  "\<not> unclaimed (fst (update_processed tbl i)) i"
  by (induction tbl) (auto simp: update_processed_def unclaimed_def)

lemma update_processed_noop:
  "\<not> unclaimed tbl i \<Longrightarrow> update_processed tbl i = (tbl, [])"
  by (induction tbl) (auto simp: update_processed_def unclaimed_def)

lemma update_processed_returns:
  "unclaimed tbl i \<Longrightarrow> snd (update_processed tbl i) \<noteq> []"
  by (induction tbl) (auto simp: update_processed_def unclaimed_def)

lemma mark_lost:
  "\<not> unclaimed tbl i \<Longrightarrow> markTriggerAsProcessed tbl outcome i = (tbl, False)"
  by (cases outcome) (simp_all add: markTriggerAsProcessed_def update_processed_noop)

lemma mark_served:
  "unclaimed tbl i \<Longrightarrow>
   markTriggerAsProcessed tbl Served i = (fst (update_processed tbl i), True)"
  using update_processed_returns [of tbl i]
  by (auto simp: markTriggerAsProcessed_def split: prod.splits)

lemma mark_success_claims:
  "snd (markTriggerAsProcessed tbl outcome i) \<Longrightarrow>
   \<not> unclaimed (fst (markTriggerAsProcessed tbl outcome i)) i"
  using update_processed_claims [of tbl i]
  by (cases outcome) (auto simp: markTriggerAsProcessed_def split: prod.splits if_splits)

lemma claim_attempts_lost:
  "\<not> unclaimed tbl i \<Longrightarrow>
   claim_attempts tbl i outcomes = (tbl, replicate (length outcomes) False)"
  by (induction outcomes) (simp_all add: mark_lost)

lemma claim_attempts_at_most_one:
  "length (filter (\<lambda>b. b) (snd (claim_attempts tbl i outcomes))) \<le> 1"
proof (induction outcomes arbitrary: tbl)
  case Nil
  then show ?case by simp
next
  case (Cons outcome rest)
  obtain tbl1 r where m: "markTriggerAsProcessed tbl outcome i = (tbl1, r)"
    by (cases "markTriggerAsProcessed tbl outcome i")
  show ?case
  proof (cases r)
    case True
    with m mark_success_claims [of tbl outcome i] have "\<not> unclaimed tbl1 i" by simp
    then show ?thesis using m True by (simp add: claim_attempts_lost)
  next
    case False
    then show ?thesis using m Cons.IH [of tbl1] by (auto split: prod.splits)
  qed
qed


text \<open>
  C1. Claiming a trigger is a compare-and-set on the consumed flag. Of any number of
  claim attempts on one trigger, made one after the other, at most one returns success.
  On a row that is still unclaimed, two served attempts give success to the first and
  failure to the second, and the second leaves the table as the first left it (the
  update matched no row). A claimant whose claim fails only logs that it looked at the
  trigger: it does not call the capture, and its counters and the device and backend
  state stay as they were. Two pollers processing the same unclaimed trigger therefore
  capture exactly once.
\<close>

theorem trigger_claim_compare_and_set:
  "length (filter (\<lambda>b. b) (snd (claim_attempts tbl i outcomes))) \<le> 1
   \<and> (unclaimed tbl i
      \<longrightarrow> snd (claim_attempts tbl i [Served, Served]) = [True, False]
          \<and> fst (claim_attempts tbl i [Served, Served]) = fst (markTriggerAsProcessed tbl Served i)
          \<and> \<not> unclaimed (fst (claim_attempts tbl i [Served, Served])) i)
   \<and> (snd (markTriggerAsProcessed tbl outcome (trigger_id t)) = False
      \<longrightarrow> processTrigger capture outcome t (tbl, m, world)
          = (fst (markTriggerAsProcessed tbl outcome (trigger_id t)),
             logActivity ''Trigger''
               (''Processing trigger ID: '' @ take 8 (trigger_id t) @ ''...'') ''info'' m,
             world))
   \<and> (unclaimed tbl (trigger_id t)
      \<longrightarrow> (case processTrigger capture Served t (tbl, mA, world) of
            (tbl1, mA1, world1) \<Rightarrow>
              (case processTrigger capture Served t (tbl1, mB, world1) of
                 (tbl2, mB1, world2) \<Rightarrow>
                   world1 = fst (capture world t) \<and> world2 = world1 \<and> tbl2 = tbl1
                   \<and> totalTriggers mA1 = totalTriggers mA + 1
                   \<and> totalTriggers mB1 = totalTriggers mB
                   \<and> successfulCaptures mB1 = successfulCaptures mB
                   \<and> failedCaptures mB1 = failedCaptures mB)))"
proof -
  have 1: "length (filter (\<lambda>b. b) (snd (claim_attempts tbl i outcomes))) \<le> 1"
    by (rule claim_attempts_at_most_one)
  have 2: "snd (claim_attempts tbl i [Served, Served]) = [True, False]
          \<and> fst (claim_attempts tbl i [Served, Served]) = fst (markTriggerAsProcessed tbl Served i)
          \<and> \<not> unclaimed (fst (claim_attempts tbl i [Served, Served])) i"
    if u: "unclaimed tbl i"
    using update_processed_claims [of tbl i]
    by (simp add: mark_served [OF u] mark_lost)
  have 3: "processTrigger capture outcome t (tbl, m, world)
          = (fst (markTriggerAsProcessed tbl outcome (trigger_id t)),
             logActivity ''Trigger''
               (''Processing trigger ID: '' @ take 8 (trigger_id t) @ ''...'') ''info'' m,
             world)"
    if f: "snd (markTriggerAsProcessed tbl outcome (trigger_id t)) = False"
  proof -
    obtain tbl1 where "markTriggerAsProcessed tbl outcome (trigger_id t) = (tbl1, False)"
      using f by (cases "markTriggerAsProcessed tbl outcome (trigger_id t)") simp
    then show ?thesis by (simp add: processTrigger_def)
  qed
  have 4: "case processTrigger capture Served t (tbl, mA, world) of
            (tbl1, mA1, world1) \<Rightarrow>
              (case processTrigger capture Served t (tbl1, mB, world1) of
                 (tbl2, mB1, world2) \<Rightarrow>
                   world1 = fst (capture world t) \<and> world2 = world1 \<and> tbl2 = tbl1
                   \<and> totalTriggers mA1 = totalTriggers mA + 1
                   \<and> totalTriggers mB1 = totalTriggers mB
                   \<and> successfulCaptures mB1 = successfulCaptures mB
                   \<and> failedCaptures mB1 = failedCaptures mB)"
    if u: "unclaimed tbl (trigger_id t)"
    using update_processed_claims [of tbl "trigger_id t"]
    by (simp add: processTrigger_def Let_def mark_served [OF u] mark_lost logActivity_def
        split: prod.splits)
  from 1 2 3 4 show ?thesis by blast
qed

theorem trigger_claim_compare_and_set_witness:
  "snd (claim_attempts
          [\<lparr>trigger_id = ''4f2a9c01-77'', button = ''yes'', processed = False,
            created_at = 1000, sensor_id = None\<rparr>]
          ''4f2a9c01-77'' [Served, Served]) = [True, False]
   \<and> \<not> unclaimed (fst (claim_attempts
          [\<lparr>trigger_id = ''4f2a9c01-77'', button = ''yes'', processed = False,
            created_at = 1000, sensor_id = None\<rparr>]
          ''4f2a9c01-77'' [Served, Served])) ''4f2a9c01-77''"
proof -
  let ?row = "\<lparr>trigger_id = ''4f2a9c01-77'', button = ''yes'', processed = False,
               created_at = 1000, sensor_id = None\<rparr>"
  have u: "unclaimed [?row] ''4f2a9c01-77''" by (simp add: unclaimed_def)
  from trigger_claim_compare_and_set
         [where tbl = "[?row]" and i = "''4f2a9c01-77''", THEN conjunct2, THEN conjunct1,
          THEN mp, OF u]
  show ?thesis by blast
qed

section \<open>Camera capture: theorems\<close>

lemma released_before_settled_append:
  "TracksStopped h \<in> set as \<Longrightarrow> released_before_settled h as \<Longrightarrow>
   released_before_settled h (as @ bs)"
proof (induction as)
  case Nil
  then show ?case by simp
next
  case (Cons a as)
  then show ?case by (cases a) auto
qed

lemma stop_phase:
  "holding h s \<or> released h s \<Longrightarrow>
   released h (stopCameraStream s) \<and> (holding h s \<longrightarrow> promise (snd (stopCameraStream s)) = None)"
  by (cases s)
    (auto simp: holding_def released_def stopCameraStream_def released_before_settled_append
      split: option.splits)

lemma settle_released: "released h s \<Longrightarrow> released h (settle r s)"
  by (cases s) (simp add: released_def settle_def released_before_settled_append)

lemma timers_phase:
  "holding h (d, c\<lparr>timers := t\<rparr>) = holding h (d, c)"
  "released h (d, c\<lparr>timers := t\<rparr>) = released h (d, c)"
  by (simp_all add: holding_def released_def)

lemma on_event_phase:
  assumes "holding h s \<or> released h s"
  shows "holding h (on_event e s) \<or> released h (on_event e s)"
proof -
  obtain d c where s: "s = (d, c)" by (cases s)
  have n: "\<not> awaiting_stream c"
    using assms by (auto simp: s holding_def released_def awaiting_stream_def)
  have st: "released h (stopCameraStream s)"
    using assms stop_phase by blast
  have st': "released h (stopCameraStream (d, c\<lparr>timers := t\<rparr>))" for t
    using assms stop_phase [of h "(d, c\<lparr>timers := t\<rparr>)"] by (simp add: s timers_phase)
  show ?thesis
  proof (cases e)
    case (GotStream k)
    with n assms show ?thesis by (simp add: on_event_def s)
  next
    case GetUserMediaFailed
    with n assms show ?thesis by (simp add: on_event_def s)
  next
    case MetadataLoadedPlayOk
    with assms show ?thesis by (auto simp: on_event_def s timers_phase)
  next
    case MetadataLoadedPlayFailed
    with assms st show ?thesis by (auto simp: on_event_def s settle_released)
  next
    case VideoErrorEvent
    with assms st show ?thesis by (auto simp: on_event_def s settle_released)
  next
    case (CaptureTimerFired out)
    with assms st' show ?thesis
      by (cases out) (auto simp: on_event_def s Let_def settle_released split: option.splits)
  next
    case TimeoutFired
    with assms st' show ?thesis by (auto simp: on_event_def s settle_released)
  qed
qed

lemma run_phase:
  "holding h s \<or> released h s \<Longrightarrow>
   holding h (foldl (\<lambda>s e. on_event e s) s events)
   \<or> released h (foldl (\<lambda>s e. on_event e s) s events)"
  by (induction events arbitrary: s) (simp_all add: on_event_phase)

text \<open>
  A call that got stream \<open>h\<close> and runs with no other call in between: whatever happens
  to it afterwards, the tracks of \<open>h\<close> are stopped before the first \<open>resolve\<close> or
  \<open>reject\<close>, and once the promise is settled \<open>h\<close> is no longer live.
\<close>

lemma isolated_call_releases_before_settling:
  "released_before_settled h (actions (snd (accessCameraAndCapture (GotStream h # events) d)))
   \<and> (promise (snd (accessCameraAndCapture (GotStream h # events) d)) \<noteq> None
      \<longrightarrow> h \<notin> liveStreams (fst (accessCameraAndCapture (GotStream h # events) d)))"
proof -
  let ?s = "accessCameraAndCapture (GotStream h # events) d"
  have "holding h (on_event (GotStream h) (d, new_call))"
    by (simp add: on_event_def holding_def new_call_def awaiting_stream_def)
  then have "holding h ?s \<or> released h ?s"
    unfolding accessCameraAndCapture_def by (simp add: run_phase)
  then show ?thesis
    by (cases ?s) (auto simp: holding_def released_def)
qed

text \<open>
  C7. The claim fails on overlapping calls. Two calls of \<^verbatim>\<open>accessCameraAndCapture\<close> on
  an idle camera, the second getting its stream before the first has captured: after
  every exit of both calls (both captures and both timeouts, all timers gone and both
  promises settled) stream 1 is still live. The first call stopped the stream the field
  held, which was stream 2, and settled without its own stream ever being stopped; for
  the second call nothing was left to stop. Nor is the capture bounded while
  \<^verbatim>\<open>getUserMedia\<close> has not answered: no timer is set yet, so no timeout can fire and the
  promise stays pending.
\<close>

theorem overlapping_captures_leak_stream:
  "liveStreams (fst (run_calls overlapping_calls idle_device)) = {1}
   \<and> currentStream (fst (run_calls overlapping_calls idle_device)) = None
   \<and> promise (snd (run_calls overlapping_calls idle_device) 0) = Some (Resolved 2048)
   \<and> promise (snd (run_calls overlapping_calls idle_device) 1) = Some (Rejected BlobError)
   \<and> actions (snd (run_calls overlapping_calls idle_device) 0)
     = [TracksStopped 2, Settled (Resolved 2048), Settled (Rejected CaptureTimeout)]
   \<and> actions (snd (run_calls overlapping_calls idle_device) 1)
     = [Settled (Rejected BlobError), Settled (Rejected CaptureTimeout)]
   \<and> timers (snd (run_calls overlapping_calls idle_device) 0) = []
   \<and> timers (snd (run_calls overlapping_calls idle_device) 1) = []
   \<and> released_before_settled 1 (actions (snd (run_calls overlapping_calls idle_device) 0)) = False
   \<and> promise (snd (accessCameraAndCapture [TimeoutFired] idle_device)) = None
   \<and> timers (snd (accessCameraAndCapture [TimeoutFired] idle_device)) = []"
  by (simp add: run_calls_def overlapping_calls_def idle_device_def call_step_def on_event_def
      new_call_def awaiting_stream_def stopCameraStream_def settle_def
      accessCameraAndCapture_def Let_def)

end
